theory Spec2Isabelle
  imports Main "HOL-Library.Word"
begin

unbundle bit_operations_syntax

section \<open>Shared vocabulary of \<open>src/gui/helpers.cpp\<close>\<close>

text \<open>
  The helpers talk to the host through the Win32 API, ICU, the C library and
  \<open>std::filesystem\<close>. None of these is code of LOOT: each host call is a
  function handed to the model (a field of \<open>win32\<close> or \<open>posix\<close>), so every
  theorem holds for whatever the host answers, and a closed evaluation names the
  answers it assumes.
\<close>

type_synonym byte = "8 word"
type_synonym char16 = "16 word"
type_synonym DWORD = "32 word"

text \<open>
  A \<open>std::filesystem::path\<close> is kept as the expression that built it:
  a path made from a narrow string (\<open>u8path\<close>, a literal), one made from a UTF-16
  string, \<open>a / b\<close> and \<open>p.parent_path()\<close>. The standard library's normal
  form of such an expression depends on the platform and is not needed below. Whether a
  UTF-16 string makes a path at all is a question of its own: see \<open>path_library\<close>.
\<close>

datatype path =
    NarrowPath string
  | WidePath "char16 list"
  | Join path path
  | ParentPath path

text \<open>
  What the standard guarantees about \<open>empty()\<close> without looking into the path's
  components: a path built from an empty string is empty, \<open>a / b\<close> is empty exactly
  when both operands are, and the parent of an empty path is empty. A non-empty path may
  have an empty parent, so neither function decides \<open>ParentPath\<close> of a non-empty path.
\<close>

fun known_empty :: "path \<Rightarrow> bool" where
  "known_empty (NarrowPath s) = (s = [])"
| "known_empty (WidePath w) = (w = [])"
| "known_empty (Join a b) = (known_empty a \<and> known_empty b)"
| "known_empty (ParentPath p) = known_empty p"

fun known_nonempty :: "path \<Rightarrow> bool" where
  "known_nonempty (NarrowPath s) = (s \<noteq> [])"
| "known_nonempty (WidePath w) = (w \<noteq> [])"
| "known_nonempty (Join a b) = (known_nonempty a \<or> known_nonempty b)"
| "known_nonempty (ParentPath p) = False"

text \<open>
  Text that the code assembles from literals, strings, \<open>path::u8string()\<close>,
  numbers and the \<open>what()\<close> of a \<open>std::system_error\<close> made from an error code:
  exception messages and the arguments of a log call.
\<close>

datatype piece = Str string | U8String path | Num nat | SystemErrorWhat int

type_synonym message = "piece list"

datatype exn =
    runtime_error message
  | invalid_argument message
  | system_error int message
  | out_of_range
  | conversion_error

text \<open>
  \<open>conversion_error\<close> is what the standard library throws when a path has no form in the
  encoding asked for: a \<open>std::filesystem::filesystem_error\<close> from the constructor of a
  path where the native encoding is narrow, a \<open>std::system_error\<close> from
  \<open>u8string()\<close> where it is wide.
\<close>

text \<open>
  How a call ends. \<open>NullDeref\<close> is the call of a member function through the null
  \<open>std::shared_ptr\<close> that \<open>getLogger()\<close> returns when no logger is registered:
  undefined behaviour, in practice an access violation.
\<close>

datatype 'a outcome = Returned 'a | Threw exn | NullDeref

datatype level = Trace | Debug | Info | Warn | Error

type_synonym log_entry = "level \<times> string \<times> message"

text \<open>
  \<open>getLogger()\<close> is declared in \<open>gui/state/logging.h\<close>; its result is the
  parameter \<open>logger\<close> of every function below: \<open>True\<close> for a logger, \<open>False\<close>
  for the null pointer. \<open>emit\<close> is a call site of the form
  \<open>if (logger) { logger->level(...); }\<close>.
\<close>

definition emit :: "bool \<Rightarrow> log_entry \<Rightarrow> log_entry list" where
  "emit logger e = (if logger then [e] else [])"

section \<open>\<open>crcToString\<close>\<close>

text \<open>
  \<open>boost::format("%08X") % crc\<close>: the digits of the value in base 16 with the
  upper-case letters, most significant first and at least one, then filled on the left with
  \<open>0\<close> up to a width of 8 characters.
\<close>

definition hex_digit :: "string \<Rightarrow> nat \<Rightarrow> char" where
  "hex_digit table d = table ! d"

fun to_hex :: "string \<Rightarrow> nat \<Rightarrow> string" where
  "to_hex table n =
     (if n < 16 then [hex_digit table n]
      else to_hex table (n div 16) @ [hex_digit table (n mod 16)])"

declare to_hex.simps [simp del]

definition upper_digits :: string where
  "upper_digits = ''0123456789ABCDEF''"

definition lower_digits :: string where
  "lower_digits = ''0123456789abcdef''"

definition zero_fill :: "nat \<Rightarrow> string \<Rightarrow> string" where
  "zero_fill width s = replicate (width - length s) CHR ''0'' @ s"

definition crcToString :: "32 word \<Rightarrow> string" where
  "crcToString crc = zero_fill 8 (to_hex upper_digits (unat crc))"

text \<open>
  Reading a string as an upper-case hexadecimal numeral, written independently of
  \<open>to_hex\<close>: \<open>None\<close> as soon as one character is not among \<open>0..9\<close>, \<open>A..F\<close>.
\<close>

definition upper_hex_value :: "char \<Rightarrow> nat option" where
  "upper_hex_value c =
     (let k = (of_char c :: nat) in
      if 48 \<le> k \<and> k \<le> 57 then Some (k - 48)
      else if 65 \<le> k \<and> k \<le> 70 then Some (k - 55)
      else None)"

fun read_upper_hex :: "nat \<Rightarrow> string \<Rightarrow> nat option" where
  "read_upper_hex acc [] = Some acc"
| "read_upper_hex acc (c # cs) =
     (case upper_hex_value c of
        None \<Rightarrow> None
      | Some d \<Rightarrow> read_upper_hex (16 * acc + d) cs)"

section \<open>\<open>FindXboxGamingRootPath\<close>\<close>

text \<open>
  What the three library calls of the \<open>try\<close> block do for a path:
  \<open>std::filesystem::is_regular_file\<close> answers or throws a \<open>filesystem_error\<close>;
  the \<open>std::ifstream\<close> constructor never throws (the stream's exception mask is
  empty), and a stream that failed to open yields no character and no exception;
  copying from the \<open>istreambuf_iterator\<close> yields the bytes or throws.
\<close>

datatype marker_file =
    NotRegularFile
  | StatusThrows string
  | CannotOpen
  | ReadThrows string
  | Contents "byte list"

text \<open>
  \<open>bytes\<close> is a \<open>std::vector<char>\<close>, and whether plain \<open>char\<close> is signed is
  the compiler's choice: it is with MSVC and with GCC and Clang on x86 and x86-64, the
  platforms LOOT is built for. \<open>char_signed\<close> is that choice. The conversion of a
  \<open>char\<close> to \<open>char16_t\<close> or to \<open>int\<close> keeps the value, so a negative
  \<open>char\<close> is sign-extended.
\<close>

definition char_to_char16 :: "bool \<Rightarrow> byte \<Rightarrow> char16" where
  "char_to_char16 char_signed b = (if char_signed then scast b else ucast b)"

definition char_to_int :: "bool \<Rightarrow> byte \<Rightarrow> 32 word" where
  "char_to_int char_signed b = (if char_signed then scast b else ucast b)"

definition CHAR_BIT :: nat where
  "CHAR_BIT = 8"

text \<open>
  \<open>char16_t value = highByte | (lowByte << CHAR_BIT)\<close>: both operands are promoted to
  \<open>int\<close> (32 bits), and the result is converted back to 16 bits.
\<close>

definition char16_value :: "char16 \<Rightarrow> char16 \<Rightarrow> char16" where
  "char16_value highByte lowByte =
     ucast ((ucast highByte :: 32 word) OR push_bit CHAR_BIT (ucast lowByte :: 32 word))"

text \<open>
  The loop \<open>for (size_t i = 0; i < bytes.size(); i += 2)\<close>, on the bytes from index
  \<open>i\<close> on; \<open>bytes.at(i + 1)\<close> throws \<open>std::out_of_range\<close> past the end.
\<close>

fun decode_loop :: "bool \<Rightarrow> byte list \<Rightarrow> char16 list \<Rightarrow> char16 list outcome" where
  "decode_loop char_signed [] content = Returned content"
| "decode_loop char_signed [b] content = Threw out_of_range"
| "decode_loop char_signed (b0 # b1 # rest) content =
     (let highByte = char_to_char16 char_signed b0;
          lowByte = char_to_char16 char_signed b1;
          value = char16_value highByte lowByte
      in decode_loop char_signed rest (content @ [value]))"

text \<open>The lambda of the hex dump: \<open>stream << "0x" << std::hex << int{byte}\<close>.\<close>

definition hex_of_char :: "bool \<Rightarrow> byte \<Rightarrow> string" where
  "hex_of_char char_signed b = ''0x'' @ to_hex lower_digits (unat (char_to_int char_signed b))"

fun join_strings :: "string \<Rightarrow> string list \<Rightarrow> string" where
  "join_strings sep [] = []"
| "join_strings sep [x] = x"
| "join_strings sep (x # y # ys) = x @ sep @ join_strings sep (y # ys)"

definition quote_mark :: string where
  "quote_mark = [CHR 0x22]"

definition CHAR16_PATH_OFFSET :: nat where
  "CHAR16_PATH_OFFSET = 4"

definition non_even_error :: "path \<Rightarrow> exn" where
  "non_even_error gamingRootFilePath =
     runtime_error [Str (''Found a non-even number of bytes in the file at '' @ quote_mark),
                    U8String gamingRootFilePath, Str quote_mark]"

definition too_short_error :: "path \<Rightarrow> exn" where
  "too_short_error gamingRootFilePath =
     runtime_error [Str (''The file at '' @ quote_mark), U8String gamingRootFilePath,
                    Str (quote_mark @ '' is shorter than expected.'')]"

text \<open>
  The last lines of the function make a \<open>std::filesystem::path\<close> from the UTF-16
  string \<open>relativePath\<close>: line 401, inside \<open>if (logger)\<close>, to log its
  \<open>u8string()\<close>, and line 404 to append it to the root. Both steps convert between
  encodings and throw when they cannot; which strings convert is the library's.
  \<open>constructs_from_u16\<close> says whether the constructor accepts the string,
  \<open>has_u8string\<close> whether \<open>u8string()\<close> of the path made from it exists.
  (The \<open>u8string()\<close> of the marker's own path, which the messages use, is taken to
  exist: the root is a path the caller already holds.)
\<close>

record path_library =
  constructs_from_u16 :: "char16 list \<Rightarrow> bool"
  has_u8string :: "char16 list \<Rightarrow> bool"

text \<open>
  Well-formed UTF-16: every unit of \<open>D800..DBFF\<close> is followed by one of
  \<open>DC00..DFFF\<close>, and no unit of \<open>DC00..DFFF\<close> stands elsewhere.
\<close>

definition is_high_surrogate :: "char16 \<Rightarrow> bool" where
  "is_high_surrogate u = (0xD800 \<le> u \<and> u \<le> 0xDBFF)"

definition is_low_surrogate :: "char16 \<Rightarrow> bool" where
  "is_low_surrogate u = (0xDC00 \<le> u \<and> u \<le> 0xDFFF)"

fun utf16_well_formed :: "char16 list \<Rightarrow> bool" where
  "utf16_well_formed [] = True"
| "utf16_well_formed [u] = (\<not> is_high_surrogate u \<and> \<not> is_low_surrogate u)"
| "utf16_well_formed (u # v # rest) =
     (if is_high_surrogate u then is_low_surrogate v \<and> utf16_well_formed rest
      else \<not> is_low_surrogate u \<and> utf16_well_formed (v # rest))"

text \<open>
  The two libraries the file is built with. Where paths are narrow (the build without
  \<open>_WIN32\<close>) the constructor converts to UTF-8 and refuses ill-formed UTF-16, and
  \<open>u8string()\<close> copies. Where paths are wide (Windows) the constructor copies, and
  \<open>u8string()\<close> converts and refuses ill-formed UTF-16.
\<close>

definition narrow_paths :: path_library where
  "narrow_paths =
     \<lparr> constructs_from_u16 = utf16_well_formed, has_u8string = (\<lambda>w. True) \<rparr>"

definition wide_paths :: path_library where
  "wide_paths =
     \<lparr> constructs_from_u16 = (\<lambda>w. True), has_u8string = utf16_well_formed \<rparr>"

text \<open>
  The function from line 342 on, once \<open>bytes\<close> is filled. The call
  \<open>logger->error\<close> of the odd-length branch is the one log call of the function that
  is not inside \<open>if (logger)\<close>.
\<close>

definition parse_gaming_root ::
  "path_library \<Rightarrow> bool \<Rightarrow> bool \<Rightarrow> path \<Rightarrow> path \<Rightarrow> byte list
     \<Rightarrow> path option outcome \<times> log_entry list"
where
  "parse_gaming_root lib char_signed logger driveRootPath gamingRootFilePath bytes =
     (let log1 = emit logger
            (Debug, ''Read the following bytes from {}: {}'',
             [U8String gamingRootFilePath,
              Str (join_strings '' '' (map (hex_of_char char_signed) bytes))])
      in
      if length bytes mod 2 \<noteq> 0 then
        (if logger then
           (Threw (non_even_error gamingRootFilePath),
            log1 @ [(Error,
              ''Found a non-even number of bytes in the file at {}, cannot interpret it as UTF-16LE'',
              [U8String gamingRootFilePath])])
         else (NullDeref, log1))
      else
        (case decode_loop char_signed bytes [] of
           Threw e \<Rightarrow> (Threw e, log1)
         | NullDeref \<Rightarrow> (NullDeref, log1)
         | Returned content \<Rightarrow>
             if length content < CHAR16_PATH_OFFSET + 1 then
               (Threw (too_short_error gamingRootFilePath),
                log1 @ emit logger
                  (Error, ''.GamingRoot content was unexpectedly short at {} char16_t long'',
                   [Num (length content)]))
             else
               (let relativePath = drop CHAR16_PATH_OFFSET (take (length content - 1) content);
                    log2 = emit logger
                      (Debug, ''Read the following relative path from .GamingRoot: {}'',
                       [U8String (WidePath relativePath)])
                in
                if logger \<and> \<not> (constructs_from_u16 lib relativePath
                                 \<and> has_u8string lib relativePath) then
                  (Threw conversion_error, log1)
                else if \<not> constructs_from_u16 lib relativePath then
                  (Threw conversion_error, log1 @ log2)
                else
                  (Returned (Some (Join driveRootPath (WidePath relativePath))),
                   log1 @ log2))))"

definition FindXboxGamingRootPath ::
  "path_library \<Rightarrow> bool \<Rightarrow> bool \<Rightarrow> (path \<Rightarrow> marker_file) \<Rightarrow> path
     \<Rightarrow> path option outcome \<times> log_entry list"
where
  "FindXboxGamingRootPath lib char_signed logger fs driveRootPath =
     (let gamingRootFilePath = Join driveRootPath (NarrowPath ''.GamingRoot'') in
      case fs gamingRootFilePath of
        NotRegularFile \<Rightarrow> (Returned None, [])
      | StatusThrows what \<Rightarrow>
          (Returned None,
           emit logger (Error, ''Failed to read file at {}: {}'',
                        [U8String gamingRootFilePath, Str what]))
      | ReadThrows what \<Rightarrow>
          (Returned None,
           emit logger (Error, ''Failed to read file at {}: {}'',
                        [U8String gamingRootFilePath, Str what]))
      | CannotOpen \<Rightarrow>
          parse_gaming_root lib char_signed logger driveRootPath gamingRootFilePath []
      | Contents bytes \<Rightarrow>
          parse_gaming_root lib char_signed logger driveRootPath gamingRootFilePath bytes)"

text \<open>
  What the loop computes on an even number of bytes, as a function of the bytes alone;
  \<open>decode_loop_even\<close> below proves that it is.
\<close>

fun paired_units :: "bool \<Rightarrow> byte list \<Rightarrow> char16 list" where
  "paired_units char_signed (b0 # b1 # rest) =
     char16_value (char_to_char16 char_signed b0) (char_to_char16 char_signed b1)
       # paired_units char_signed rest"
| "paired_units char_signed [b] = []"
| "paired_units char_signed [] = []"

text \<open>
  The marker format in the words of the specification, for the round trip: the 8-byte
  header, each 16-bit unit of the relative path as two bytes with the low byte first, and
  one 16-bit terminator unit.
\<close>

definition utf16le_bytes :: "char16 \<Rightarrow> byte list" where
  "utf16le_bytes u = [ucast u, ucast (drop_bit 8 u)]"

definition spec_encode_marker :: "byte list \<Rightarrow> char16 list \<Rightarrow> char16 \<Rightarrow> byte list" where
  "spec_encode_marker header relativePath terminator =
     header @ concat (map utf16le_bytes relativePath) @ utf16le_bytes terminator"

text \<open>The header that the comment of the source gives: \<open>52 47 42 58 01 00 00 00\<close>.\<close>

definition gaming_root_header :: "byte list" where
  "gaming_root_header = [0x52, 0x47, 0x42, 0x58, 0x01, 0x00, 0x00, 0x00]"

text \<open>
  The root of drive \<open>D:\<close> (the letter, a colon and a backslash), and a file system
  in which one path is a marker file and nothing else is a regular file.
\<close>

definition drive_D :: path where
  "drive_D = NarrowPath [CHR ''D'', CHR '':'', CHR 0x5C]"

definition only_marker :: "path \<Rightarrow> marker_file \<Rightarrow> path \<Rightarrow> marker_file" where
  "only_marker root file p =
     (if p = Join root (NarrowPath ''.GamingRoot'') then file else NotRegularFile)"

section \<open>The Registry functions\<close>

text \<open>
  The constants of the Windows SDK that the code names: status codes of the Registry
  API (a \<open>LONG\<close>), the results of \<open>CompareStringOrdinal\<close>, \<open>S_OK\<close> and
  \<open>MAX_PATH\<close>.
\<close>

definition ERROR_SUCCESS :: int where
  "ERROR_SUCCESS = 0"

definition ERROR_FILE_NOT_FOUND :: int where
  "ERROR_FILE_NOT_FOUND = 2"

definition ERROR_ACCESS_DENIED :: int where
  "ERROR_ACCESS_DENIED = 5"

definition ERROR_MORE_DATA :: int where
  "ERROR_MORE_DATA = 234"

definition ERROR_NO_MORE_ITEMS :: int where
  "ERROR_NO_MORE_ITEMS = 259"

definition CSTR_LESS_THAN :: int where
  "CSTR_LESS_THAN = 1"

definition CSTR_EQUAL :: int where
  "CSTR_EQUAL = 2"

definition CSTR_GREATER_THAN :: int where
  "CSTR_GREATER_THAN = 3"

definition S_OK :: int where
  "S_OK = 0"

definition MAX_PATH :: nat where
  "MAX_PATH = 260"

datatype HKEY =
    HKEY_CLASSES_ROOT
  | HKEY_CURRENT_CONFIG
  | HKEY_CURRENT_USER
  | HKEY_LOCAL_MACHINE
  | HKEY_USERS
  | KeyHandle nat

text \<open>
  The two flag words of the \<open>RegGetValue\<close> calls:
  \<open>RRF_RT_REG_SZ | RRF_SUBKEY_WOW6432KEY\<close> and
  \<open>RRF_RT_REG_SZ | RRF_SUBKEY_WOW6464KEY\<close>.
\<close>

datatype reg_view = WOW6432KEY | WOW6464KEY

text \<open>
  The Win32 calls of the file. A call that writes through a pointer returns what it leaves
  there: \<open>RegGetValue\<close> and \<open>RegEnumKeyEx\<close> take the buffer and the length
  variable as the code passes them and return the status with both as they are after the
  call; \<open>RegOpenKeyEx\<close> returns the status and the handle. The conversion calls are
  given by the text they produce (\<open>CP_UTF8\<close>, no flags).
\<close>

record win32 =
  MultiByteToWideChar :: "string \<Rightarrow> char16 list"
  WideCharToMultiByte :: "char16 list \<Rightarrow> string"
  RegGetValue ::
    "HKEY \<Rightarrow> char16 list \<Rightarrow> char16 list \<Rightarrow> reg_view \<Rightarrow> char16 list \<Rightarrow> DWORD
       \<Rightarrow> int \<times> char16 list \<times> DWORD"
  RegOpenKeyEx :: "HKEY \<Rightarrow> char16 list \<Rightarrow> int \<times> HKEY"
  RegEnumKeyEx :: "HKEY \<Rightarrow> DWORD \<Rightarrow> char16 list \<Rightarrow> DWORD \<Rightarrow> int \<times> char16 list \<times> DWORD"
  GetLastError :: int
  CompareStringOrdinal :: "char16 list \<Rightarrow> char16 list \<Rightarrow> int"
  GetModuleFileName :: "char16 list \<Rightarrow> nat \<Rightarrow> nat \<times> char16 list"
  SHGetKnownFolderPath :: "int \<times> char16 list"

text \<open>\<open>c_str()\<close>, read as a null-terminated string: the units before the first null.\<close>

definition c_str :: "char16 list \<Rightarrow> char16 list" where
  "c_str w = takeWhile (\<lambda>u. u \<noteq> 0) w"

definition ToWinWide :: "win32 \<Rightarrow> string \<Rightarrow> char16 list" where
  "ToWinWide os str = MultiByteToWideChar os str"

definition FromWinWide :: "win32 \<Rightarrow> char16 list \<Rightarrow> string" where
  "FromWinWide os wstr = WideCharToMultiByte os wstr"

definition GetRegistryRootKey :: "string \<Rightarrow> HKEY outcome" where
  "GetRegistryRootKey rootKey =
     (if rootKey = ''HKEY_CLASSES_ROOT'' then Returned HKEY_CLASSES_ROOT
      else if rootKey = ''HKEY_CURRENT_CONFIG'' then Returned HKEY_CURRENT_CONFIG
      else if rootKey = ''HKEY_CURRENT_USER'' then Returned HKEY_CURRENT_USER
      else if rootKey = ''HKEY_LOCAL_MACHINE'' then Returned HKEY_LOCAL_MACHINE
      else if rootKey = ''HKEY_USERS'' then Returned HKEY_USERS
      else Threw (invalid_argument [Str ''Invalid registry key given.'']))"

text \<open>
  \<open>RegKeyStringValue\<close> returns, beside the outcome and the log, the views it asked
  \<open>RegGetValue\<close> for, in the order of the calls. The tail of the function, from
  \<open>if (ret == ERROR_SUCCESS)\<close> on, is \<open>string_value_result\<close>. The call
  \<open>logger->info\<close> between the two lookups is not inside \<open>if (logger)\<close>.
\<close>

definition string_value_result ::
  "win32 \<Rightarrow> bool \<Rightarrow> int \<Rightarrow> char16 list \<Rightarrow> string outcome \<times> log_entry list"
where
  "string_value_result os logger ret wstr =
     (if ret = ERROR_SUCCESS then
        (let stringValue = FromWinWide os (c_str wstr)
         in (Returned stringValue, emit logger (Info, ''Found string: {}'', [Str stringValue])))
      else (Returned [], emit logger (Info, ''Failed to get string value.'', [])))"

definition RegKeyStringValue ::
  "win32 \<Rightarrow> bool \<Rightarrow> string \<Rightarrow> string \<Rightarrow> string
     \<Rightarrow> string outcome \<times> log_entry list \<times> reg_view list"
where
  "RegKeyStringValue os logger rootKey subkey val =
     (case GetRegistryRootKey rootKey of
        Threw e \<Rightarrow> (Threw e, [], [])
      | NullDeref \<Rightarrow> (NullDeref, [], [])
      | Returned hKey \<Rightarrow>
          (let len = (of_nat MAX_PATH :: DWORD);
               wstr = replicate MAX_PATH (0 :: char16);
               log1 = emit logger
                 (Trace, ''Getting string for registry key, subkey and value: {}, {}, {}'',
                  [Str rootKey, Str subkey, Str val])
           in
           case RegGetValue os hKey (c_str (ToWinWide os subkey)) (c_str (ToWinWide os val))
                  WOW6432KEY wstr len of
             (ret, wstr1, len1) \<Rightarrow>
               if ret \<noteq> ERROR_SUCCESS then
                 (if logger then
                    (let log2 = log1 @ [(Info,
                           ''Failed to get string value from 32-bit Registry view, trying 64-bit Registry view.'',
                           [])]
                     in
                     case RegGetValue os hKey (c_str (ToWinWide os subkey))
                            (c_str (ToWinWide os val)) WOW6464KEY wstr1 len1 of
                       (ret2, wstr2, len2) \<Rightarrow>
                         (case string_value_result os logger ret2 wstr2 of
                            (r, log3) \<Rightarrow> (r, log2 @ log3, [WOW6432KEY, WOW6464KEY])))
                  else (NullDeref, log1, [WOW6432KEY]))
               else
                 (case string_value_result os logger ret wstr1 of
                    (r, log3) \<Rightarrow> (r, log1 @ log3, [WOW6432KEY]))))"

definition subkeys_error :: "win32 \<Rightarrow> string \<Rightarrow> string \<Rightarrow> exn" where
  "subkeys_error os rootKey subKey =
     system_error (GetLastError os)
       [Str (''Failed to get the subkeys of the Registry key: '' @ rootKey @ [CHR 0x5C] @ subKey)]"

text \<open>
  The loop \<open>while (status == ERROR_SUCCESS)\<close> of \<open>GetRegistrySubKeys\<close>, entered
  with \<open>status == ERROR_SUCCESS\<close>: one call of the function is one pass through the
  body, with the variables \<open>subKeyNames\<close>, \<open>subKeyIndex\<close>, \<open>subKeyName\<close> and
  \<open>len\<close> as they are at its start. The host decides whether the loop ends, so the
  result is an option: \<open>None\<close> when it never does. \<open>RegCloseKey\<close>, whose result
  the code does not read, is left out.
\<close>

partial_function (option) enum_loop ::
  "win32 \<Rightarrow> HKEY \<Rightarrow> exn \<Rightarrow> string list \<Rightarrow> DWORD \<Rightarrow> char16 list \<Rightarrow> DWORD
     \<Rightarrow> string list outcome option"
where
  "enum_loop os hKey failure subKeyNames subKeyIndex subKeyName len =
     (case RegEnumKeyEx os hKey subKeyIndex subKeyName len of
        (status, subKeyName1, len1) \<Rightarrow>
          if status \<noteq> ERROR_SUCCESS \<and> status \<noteq> ERROR_NO_MORE_ITEMS then
            Some (Threw failure)
          else
            (let subKeyNames1 = subKeyNames @ [FromWinWide os (c_str subKeyName1)] in
             if status = ERROR_SUCCESS then
               enum_loop os hKey failure subKeyNames1 (subKeyIndex + 1) subKeyName1 len1
             else Some (Returned subKeyNames1)))"

declare enum_loop.simps [code]

definition GetRegistrySubKeys ::
  "win32 \<Rightarrow> bool \<Rightarrow> string \<Rightarrow> string \<Rightarrow> (string list outcome \<times> log_entry list) option"
where
  "GetRegistrySubKeys os logger rootKey subKey =
     (let log1 = emit logger
            (Trace, ''Getting subkey names for registry key and subkey: {}, {}'',
             [Str rootKey, Str subKey])
      in
      case GetRegistryRootKey rootKey of
        Threw e \<Rightarrow> Some (Threw e, log1)
      | NullDeref \<Rightarrow> Some (NullDeref, log1)
      | Returned root \<Rightarrow>
          (case RegOpenKeyEx os root (c_str (ToWinWide os subKey)) of
             (status, hKey) \<Rightarrow>
               if status \<noteq> ERROR_SUCCESS then
                 Some (Returned [],
                       log1 @ emit logger
                         (Warn, ''Failed to open the Registry key '' @ quote_mark @ ''{}''
                                  @ quote_mark @ '': {}'',
                          [Str (rootKey @ [CHR 0x5C] @ subKey), SystemErrorWhat (GetLastError os)]))
               else
                 map_option (\<lambda>r. (r, log1))
                   (enum_loop os hKey (subkeys_error os rootKey subKey) []
                      0 (replicate MAX_PATH 0) (of_nat MAX_PATH))))"

section \<open>Filename comparison and the well-known directories\<close>

text \<open>
  The calls of the branch that is compiled where \<open>_WIN32\<close> is not defined:
  \<open>getenv\<close> (\<open>None\<close> for the null pointer), \<open>readlink\<close> with the path and the
  size of the buffer, returning the count and the buffer after the call, and ICU's
  \<open>UnicodeString::fromUTF8\<close> and \<open>caseCompare\<close> (with \<open>U_FOLD_CASE_DEFAULT\<close>).
\<close>

record posix =
  getenv :: "string \<Rightarrow> string option"
  readlink :: "string \<Rightarrow> nat \<Rightarrow> int \<times> string"
  fromUTF8 :: "string \<Rightarrow> char16 list"
  caseCompare :: "char16 list \<Rightarrow> char16 list \<Rightarrow> int"

text \<open>The two ways the file is compiled, each with its host.\<close>

datatype host = Windows win32 | Posix posix

definition PATH_MAX :: nat where
  "PATH_MAX = 4096"

definition invalid_filename :: exn where
  "invalid_filename = invalid_argument [Str ''One of the filenames to compare was invalid.'']"

definition CompareFilenames :: "host \<Rightarrow> string \<Rightarrow> string \<Rightarrow> int outcome" where
  "CompareFilenames h lhs rhs =
     (case h of
        Windows os \<Rightarrow>
          (let result = CompareStringOrdinal os (c_str (ToWinWide os lhs))
                          (c_str (ToWinWide os rhs))
           in if result = CSTR_LESS_THAN then Returned (- 1)
              else if result = CSTR_EQUAL then Returned 0
              else if result = CSTR_GREATER_THAN then Returned 1
              else Threw invalid_filename)
      | Posix os \<Rightarrow>
          (let unicodeLhs = fromUTF8 os lhs;
               unicodeRhs = fromUTF8 os rhs
           in Returned (caseCompare os unicodeLhs unicodeRhs)))"

definition no_executable_path :: "int \<Rightarrow> exn" where
  "no_executable_path code = system_error code [Str ''Failed to get LOOT executable path.'']"

definition getExecutableDirectory :: "host \<Rightarrow> bool \<Rightarrow> path outcome \<times> log_entry list" where
  "getExecutableDirectory h logger =
     (case h of
        Windows os \<Rightarrow>
          (case GetModuleFileName os (replicate MAX_PATH 0) MAX_PATH of
             (n, executablePathString) \<Rightarrow>
               if n = 0 then
                 (Threw (no_executable_path (GetLastError os)),
                  emit logger (Error, ''Failed to get LOOT executable path.'', []))
               else (Returned (ParentPath (WidePath executablePathString)), []))
      | Posix os \<Rightarrow>
          (case readlink os ''/proc/self/exe'' PATH_MAX of
             (count, result) \<Rightarrow>
               if count < 0 then
                 (Threw (no_executable_path count),
                  emit logger (Error, ''Failed to get LOOT executable path.'', []))
               else (Returned (ParentPath (NarrowPath (take (nat count) result))), [])))"

definition getLocalAppDataPath :: "host \<Rightarrow> bool \<Rightarrow> path outcome \<times> log_entry list" where
  "getLocalAppDataPath h logger =
     (case h of
        Windows os \<Rightarrow>
          (case SHGetKnownFolderPath os of
             (hr, folder) \<Rightarrow>
               if hr \<noteq> S_OK then
                 (Threw (system_error (GetLastError os)
                           [Str ''Failed to get %LOCALAPPDATA% path.'']), [])
               else (Returned (WidePath (c_str folder)), []))
      | Posix os \<Rightarrow>
          (case getenv os ''XDG_CONFIG_HOME'' of
             Some xdgConfigHome \<Rightarrow> (Returned (NarrowPath xdgConfigHome), [])
           | None \<Rightarrow>
               (case getenv os ''HOME'' of
                  Some home \<Rightarrow>
                    (Returned (Join (NarrowPath home) (NarrowPath ''.config'')), [])
                | None \<Rightarrow> getExecutableDirectory (Posix os) logger)))"

section \<open>Hosts for closed evaluations\<close>

text \<open>
  Text conversion on ASCII, where UTF-8 and UTF-16 have the same code units. A byte that
  is not ASCII and starts no well-formed sequence, here \<open>FF\<close>, decodes to U+FFFD in
  \<open>fromUTF8\<close>; other bytes above \<open>7F\<close> are not used below.
\<close>

definition ascii_to_wide :: "string \<Rightarrow> char16 list" where
  "ascii_to_wide s = map (\<lambda>c. if (of_char c :: nat) < 128 then of_char c else 0xFFFD) s"

definition wide_to_ascii :: "char16 list \<Rightarrow> string" where
  "wide_to_ascii w = map (\<lambda>u. char_of (unat u)) w"

text \<open>
  \<open>RegEnumKeyEx\<close> as documented, on a key whose subkeys are \<open>children\<close>: past the last
  subkey the status is \<open>ERROR_NO_MORE_ITEMS\<close> and nothing is written; a name that does
  not fit the \<open>len\<close> units of the buffer with its terminating null is
  \<open>ERROR_MORE_DATA\<close>; otherwise the name and a null are written and \<open>len\<close> becomes
  the length of the name.
\<close>

definition enum_children ::
  "char16 list list \<Rightarrow> DWORD \<Rightarrow> char16 list \<Rightarrow> DWORD \<Rightarrow> int \<times> char16 list \<times> DWORD"
where
  "enum_children children index buffer len =
     (if unat index < length children then
        (let name = children ! unat index in
         if unat len < length name + 1 then (ERROR_MORE_DATA, buffer, len)
         else (ERROR_SUCCESS, name @ [0] @ drop (length name + 1) buffer,
               of_nat (length name)))
      else (ERROR_NO_MORE_ITEMS, buffer, len))"

text \<open>
  A Windows host given by what its Registry answers: the status of a value lookup in each
  view (a failed lookup writes nothing), the status of opening the key, and the key's
  subkeys. The calls that the Registry functions do not make report failure.
\<close>

definition registry_host :: "(reg_view \<Rightarrow> int) \<Rightarrow> int \<Rightarrow> char16 list list \<Rightarrow> win32" where
  "registry_host value_status open_status children =
     \<lparr> MultiByteToWideChar = ascii_to_wide,
       WideCharToMultiByte = wide_to_ascii,
       RegGetValue = (\<lambda>hKey subkey val view buffer len. (value_status view, buffer, len)),
       RegOpenKeyEx = (\<lambda>hKey subkey. (open_status, KeyHandle 1)),
       RegEnumKeyEx = (\<lambda>hKey. enum_children children),
       GetLastError = 0,
       CompareStringOrdinal = (\<lambda>a b. 0),
       GetModuleFileName = (\<lambda>buffer n. (0, buffer)),
       SHGetKnownFolderPath = (- 1, []) \<rparr>"

text \<open>
  A host of the other branch given by its environment and by what \<open>readlink\<close> answers
  for the executable. Its comparison folds the ASCII letters and compares unit by unit,
  which is what ICU does on ASCII and U+FFFD.
\<close>

definition fold_ascii :: "char16 \<Rightarrow> char16" where
  "fold_ascii u = (if 0x41 \<le> u \<and> u \<le> 0x5A then u + 0x20 else u)"

fun compare_units :: "char16 list \<Rightarrow> char16 list \<Rightarrow> int" where
  "compare_units [] [] = 0"
| "compare_units [] (y # ys) = - 1"
| "compare_units (x # xs) [] = 1"
| "compare_units (x # xs) (y # ys) =
     (if fold_ascii x < fold_ascii y then - 1
      else if fold_ascii y < fold_ascii x then 1
      else compare_units xs ys)"

definition posix_host :: "(string \<Rightarrow> string option) \<Rightarrow> int \<times> string \<Rightarrow> posix" where
  "posix_host env exe =
     \<lparr> getenv = env,
       readlink = (\<lambda>p n. exe),
       fromUTF8 = ascii_to_wide,
       caseCompare = compare_units \<rparr>"

section \<open>Properties of \<open>crcToString\<close>\<close>

lemma upper_hex_value_digit:
  assumes "d < 16"
  shows "upper_hex_value (hex_digit upper_digits d) = Some d"
proof -
  from assms have "d \<in> {0, 1, 2, 3, 4, 5, 6, 7, 8, 9, 10, 11, 12, 13, 14, 15}"
    by simp presburger
  then show ?thesis
    by (auto simp: upper_hex_value_def hex_digit_def upper_digits_def)
qed

lemma read_upper_hex_append:
  "read_upper_hex acc (xs @ ys) =
     (case read_upper_hex acc xs of None \<Rightarrow> None | Some v \<Rightarrow> read_upper_hex v ys)"
  by (induction xs arbitrary: acc) (auto split: option.splits)

lemma read_upper_hex_to_hex:
  "read_upper_hex 0 (to_hex upper_digits n) = Some n"
proof (induction upper_digits n rule: to_hex.induct)
  case (1 n)
  show ?case
  proof (cases "n < 16")
    case True
    then show ?thesis
      by (simp add: to_hex.simps [of _ n] upper_hex_value_digit)
  next
    case False
    with 1 have "read_upper_hex 0 (to_hex upper_digits (n div 16)) = Some (n div 16)"
      by simp
    with False show ?thesis
      by (simp add: to_hex.simps [of _ n] read_upper_hex_append upper_hex_value_digit)
  qed
qed

lemma read_upper_hex_zeros:
  "read_upper_hex 0 (replicate k CHR ''0'' @ s) = read_upper_hex 0 s"
  by (induction k) (simp_all add: upper_hex_value_def)

lemma length_to_hex:
  "n < 16 ^ k \<Longrightarrow> 0 < k \<Longrightarrow> length (to_hex table n) \<le> k"
proof (induction table n arbitrary: k rule: to_hex.induct)
  case (1 table n)
  show ?case
  proof (cases "n < 16")
    case True
    with 1 show ?thesis by (simp add: to_hex.simps [of _ n])
  next
    case False
    from \<open>0 < k\<close> obtain j where k: "k = Suc j" by (cases k) auto
    from False 1(2) k have "0 < j" by (cases j) auto
    moreover from 1(2) k have "n div 16 < 16 ^ j"
      by (simp add: less_mult_imp_div_less mult.commute)
    ultimately have "length (to_hex table (n div 16)) \<le> j"
      using 1(1) [OF False] by blast
    with False k show ?thesis by (simp add: to_hex.simps [of _ n])
  qed
qed

text \<open>
  C10. For every 32-bit value \<open>crcToString\<close> returns exactly 8 characters, and they are
  the value's upper-case hexadecimal numeral: every character is one of
  \<open>0..9\<close>, \<open>A..F\<close> and the numeral reads back as the value. Being 8 characters
  long, the numeral is the one padded with zeros on the left.
\<close>

theorem crcToString_is_padded_upper_hex:
  "length (crcToString crc) = 8 \<and> read_upper_hex 0 (crcToString crc) = Some (unat crc)"
proof -
  have "unat crc < 2 ^ 32"
    using unsigned_less [of crc] by simp
  then have "unat crc < 16 ^ 8" by simp
  then have "length (to_hex upper_digits (unat crc)) \<le> 8"
    by (rule length_to_hex) simp
  then have "length (crcToString crc) = 8"
    by (simp add: crcToString_def zero_fill_def)
  moreover have "read_upper_hex 0 (crcToString crc) = Some (unat crc)"
    by (simp add: crcToString_def zero_fill_def read_upper_hex_zeros read_upper_hex_to_hex)
  ultimately show ?thesis by simp
qed

section \<open>Properties of \<open>FindXboxGamingRootPath\<close>\<close>

lemma decode_loop_even:
  "even (length bytes) \<Longrightarrow>
     decode_loop char_signed bytes content = Returned (content @ paired_units char_signed bytes)"
proof (induction char_signed bytes content rule: decode_loop.induct)
  case (1 char_signed content)
  then show ?case by simp
next
  case (2 char_signed b content)
  then show ?case by simp
next
  case (3 char_signed b0 b1 rest content)
  then show ?case by (simp add: Let_def)
qed

lemma length_paired_units:
  "length (paired_units char_signed bytes) = length bytes div 2"
  by (induction char_signed bytes rule: paired_units.induct) simp_all

lemma parse_even:
  assumes "even (length bytes)"
  shows "fst (parse_gaming_root lib char_signed logger root marker bytes) =
      (if length bytes < 10 then Threw (too_short_error marker)
       else if constructs_from_u16 lib (drop 4 (butlast (paired_units char_signed bytes)))
               \<and> (logger \<longrightarrow>
                     has_u8string lib (drop 4 (butlast (paired_units char_signed bytes))))
       then Returned (Some (Join root
              (WidePath (drop 4 (butlast (paired_units char_signed bytes))))))
       else Threw conversion_error)"
proof -
  have "length (paired_units char_signed bytes) < 5 \<longleftrightarrow> length bytes < 10"
    using assms by (auto simp: length_paired_units elim!: evenE)
  with assms show ?thesis
    by (simp add: parse_gaming_root_def decode_loop_even Let_def CHAR16_PATH_OFFSET_def
        even_iff_mod_2_eq_zero butlast_conv_take)
qed

lemma parse_odd:
  assumes "odd (length bytes)"
  shows "fst (parse_gaming_root lib char_signed logger root marker bytes) =
      (if logger then Threw (non_even_error marker) else NullDeref)"
  using assms by (simp add: parse_gaming_root_def Let_def odd_iff_mod_2_eq_one)

text \<open>
  C7. A marker file that was read, with an even number of bytes and fewer than 10 of
  them, makes \<open>FindXboxGamingRootPath\<close> throw the \<open>runtime_error\<close> whose message
  says that the file is shorter than expected, with a logger or without, whatever the
  library. With 10 bytes or more the length check passes and the outcome is that of the
  relative path: the root joined with it when the library makes a path of it (and, with a
  logger, has its \<open>u8string()\<close>), the library's conversion error otherwise; it is never
  the error of a short file. Fewer than 10 bytes is the same as a count of decoded 16-bit
  units that is not greater than the header length \<open>CHAR16_PATH_OFFSET = 4\<close>.
\<close>

theorem short_marker_is_rejected:
  assumes "fs (Join root (NarrowPath ''.GamingRoot'')) = Contents bytes"
    and "even (length bytes)"
  shows "(length bytes < 10 \<longrightarrow>
            fst (FindXboxGamingRootPath lib char_signed logger fs root) =
              Threw (too_short_error (Join root (NarrowPath ''.GamingRoot''))))
       \<and> (10 \<le> length bytes \<longrightarrow>
            fst (FindXboxGamingRootPath lib char_signed logger fs root) =
              (if constructs_from_u16 lib (drop 4 (butlast (paired_units char_signed bytes)))
                  \<and> (logger \<longrightarrow>
                        has_u8string lib (drop 4 (butlast (paired_units char_signed bytes))))
               then Returned (Some (Join root
                      (WidePath (drop 4 (butlast (paired_units char_signed bytes))))))
               else Threw conversion_error)
            \<and> fst (FindXboxGamingRootPath lib char_signed logger fs root) \<noteq>
                Threw (too_short_error (Join root (NarrowPath ''.GamingRoot''))))
       \<and> (length bytes < 10 \<longleftrightarrow> \<not> CHAR16_PATH_OFFSET < length bytes div 2)"
proof -
  let ?marker = "Join root (NarrowPath ''.GamingRoot'')"
  let ?rel = "drop 4 (butlast (paired_units char_signed bytes))"
  have eq: "fst (FindXboxGamingRootPath lib char_signed logger fs root) =
      (if length bytes < 10 then Threw (too_short_error ?marker)
       else if constructs_from_u16 lib ?rel \<and> (logger \<longrightarrow> has_u8string lib ?rel)
       then Returned (Some (Join root (WidePath ?rel)))
       else Threw conversion_error)"
    using assms by (simp add: FindXboxGamingRootPath_def Let_def parse_even)
  have short: "length bytes < 10 \<longrightarrow>
      fst (FindXboxGamingRootPath lib char_signed logger fs root) =
        Threw (too_short_error ?marker)"
    using eq by simp
  have long: "10 \<le> length bytes \<longrightarrow>
      fst (FindXboxGamingRootPath lib char_signed logger fs root) =
        (if constructs_from_u16 lib ?rel \<and> (logger \<longrightarrow> has_u8string lib ?rel)
         then Returned (Some (Join root (WidePath ?rel)))
         else Threw conversion_error)
      \<and> fst (FindXboxGamingRootPath lib char_signed logger fs root) \<noteq>
          Threw (too_short_error ?marker)"
    using eq by (simp add: too_short_error_def)
  have count: "length bytes < 10 \<longleftrightarrow> \<not> 4 < length bytes div 2"
    using assms(2) by (auto elim!: evenE)
  show ?thesis
    unfolding CHAR16_PATH_OFFSET_def using short long count by blast
qed

theorem short_marker_is_rejected_witness:
  "fst (FindXboxGamingRootPath narrow_paths True False
          (only_marker drive_D (Contents gaming_root_header)) drive_D)
     = Threw (too_short_error (Join drive_D (NarrowPath ''.GamingRoot'')))"
  using short_marker_is_rejected
    [of "only_marker drive_D (Contents gaming_root_header)" drive_D gaming_root_header
        narrow_paths True False]
  by (simp add: only_marker_def gaming_root_header_def)

text \<open>
  The two outcomes of a marker that is long enough, where paths are narrow: the header,
  the unit \<open>0041\<close> and a terminator give the root joined with \<open>A\<close>; the header, the
  lone surrogate \<open>D800\<close> and a terminator give the conversion error.
\<close>

lemma long_marker_outcomes:
  "fst (FindXboxGamingRootPath narrow_paths True False
          (only_marker drive_D (Contents (gaming_root_header @ [0x41, 0x00, 0x00, 0x00])))
          drive_D) = Returned (Some (Join drive_D (WidePath [0x0041])))
   \<and> fst (FindXboxGamingRootPath narrow_paths True False
          (only_marker drive_D (Contents (gaming_root_header @ [0x00, 0xD8, 0x00, 0x00])))
          drive_D) = Threw conversion_error"
  by (simp add: FindXboxGamingRootPath_def only_marker_def parse_gaming_root_def
      gaming_root_header_def char_to_char16_def char16_value_def CHAR_BIT_def
      CHAR16_PATH_OFFSET_def emit_def Let_def narrow_paths_def
      is_high_surrogate_def is_low_surrogate_def)

text \<open>
  C6. A marker file that was read and has an odd number of bytes makes
  \<open>FindXboxGamingRootPath\<close> throw the \<open>runtime_error\<close> that names the file only
  when a logger is registered. Without one the function calls \<open>logger->error\<close>
  through the null pointer before it reaches the \<open>throw\<close>.
\<close>

theorem odd_marker_needs_logger:
  assumes "fs (Join root (NarrowPath ''.GamingRoot'')) = Contents bytes"
    and "odd (length bytes)"
  shows "fst (FindXboxGamingRootPath lib char_signed False fs root) = NullDeref
       \<and> fst (FindXboxGamingRootPath lib char_signed True fs root) =
           Threw (non_even_error (Join root (NarrowPath ''.GamingRoot'')))"
  using assms parse_odd [OF assms(2)]
  by (simp add: FindXboxGamingRootPath_def Let_def)

theorem odd_marker_needs_logger_witness:
  "fst (FindXboxGamingRootPath wide_paths True False
          (only_marker drive_D (Contents [0x52, 0x47, 0x42])) drive_D) = NullDeref
   \<and> fst (FindXboxGamingRootPath wide_paths True True
          (only_marker drive_D (Contents [0x52, 0x47, 0x42])) drive_D) =
       Threw (non_even_error (Join drive_D (NarrowPath ''.GamingRoot'')))"
  using odd_marker_needs_logger
    [of "only_marker drive_D (Contents [0x52, 0x47, 0x42])" drive_D "[0x52, 0x47, 0x42]"
        wide_paths True]
  by (simp add: only_marker_def)

lemma absent_when_caught:
  assumes "fs (Join root (NarrowPath ''.GamingRoot''))
             \<in> {NotRegularFile, StatusThrows what, ReadThrows what}"
  shows "fst (FindXboxGamingRootPath lib char_signed logger fs root) = Returned None"
  using assms by (auto simp: FindXboxGamingRootPath_def Let_def)

text \<open>
  C8. A marker that is a regular file and cannot be opened is not absent for
  \<open>FindXboxGamingRootPath\<close>: nothing is thrown inside the \<open>try\<close> block,
  \<open>bytes\<close> stays empty, and the function throws the \<open>runtime_error\<close> of a file that
  is shorter than expected. (A marker that is missing or not a regular file, and a failure
  that throws, do give "absent": \<open>absent_when_caught\<close>.)
\<close>

theorem unopened_marker_is_an_error:
  assumes "fs (Join root (NarrowPath ''.GamingRoot'')) = CannotOpen"
  shows "fst (FindXboxGamingRootPath lib char_signed logger fs root) =
           Threw (too_short_error (Join root (NarrowPath ''.GamingRoot'')))"
  using assms parse_even [of "[]" lib char_signed logger root]
  by (simp add: FindXboxGamingRootPath_def Let_def)

theorem unopened_marker_is_an_error_witness:
  "fst (FindXboxGamingRootPath wide_paths True True (only_marker drive_D CannotOpen) drive_D)
     = Threw (too_short_error (Join drive_D (NarrowPath ''.GamingRoot'')))"
  using unopened_marker_is_an_error
    [of "only_marker drive_D CannotOpen" drive_D wide_paths True True]
  by (simp add: only_marker_def)

lemma unit_roundtrip:
  fixes u :: char16
  assumes "char_signed \<longrightarrow> \<not> bit u 7"
  shows "char16_value (char_to_char16 char_signed (ucast u))
           (char_to_char16 char_signed (ucast (drop_bit 8 u))) = u"
proof (rule bit_word_eqI)
  fix n
  assume "n < LENGTH(16)"
  then have n: "n < 16" by simp
  let ?lhs = "char16_value (char_to_char16 char_signed (ucast u))
           (char_to_char16 char_signed (ucast (drop_bit 8 u)))"
  consider "n < 7" | "n = 7" | "8 \<le> n" by linarith
  then show "bit ?lhs n = bit u n"
  proof cases
    case 1
    then have "min 7 n = n" by simp
    with 1 n show ?thesis
      by (auto simp: char16_value_def char_to_char16_def CHAR_BIT_def bit_simps)
  next
    case 2
    with n assms show ?thesis
      by (auto simp: char16_value_def char_to_char16_def CHAR_BIT_def bit_simps)
  next
    case 3
    with n have "min 7 (n - 8) = n - 8" "min 7 n = 7" by simp_all
    with 3 n assms show ?thesis
      by (auto simp: char16_value_def char_to_char16_def CHAR_BIT_def bit_simps)
  qed
qed

lemma paired_units_append:
  "even (length xs) \<Longrightarrow>
     paired_units char_signed (xs @ ys) = paired_units char_signed xs @ paired_units char_signed ys"
  by (induction char_signed xs rule: paired_units.induct) auto

lemma paired_units_encode:
  assumes "char_signed \<longrightarrow> list_all (\<lambda>u. \<not> bit u 7) relativePath"
  shows "paired_units char_signed (concat (map utf16le_bytes relativePath)) = relativePath"
  using assms by (induction relativePath) (auto simp: utf16le_bytes_def unit_roundtrip)

text \<open>
  Where the round trip does hold: for a path that the library converts, where plain
  \<open>char\<close> is unsigned, and, where it is signed, when all units of the path have a low
  byte below \<open>80\<close> (bit 7 clear). The header's contents and the terminator's value do
  not matter.
\<close>

lemma round_trip_with_low_bytes_below_80:
  assumes "fs (Join root (NarrowPath ''.GamingRoot'')) =
             Contents (spec_encode_marker header relativePath terminator)"
    and "length header = 8"
    and "char_signed \<longrightarrow> list_all (\<lambda>u. \<not> bit u 7) relativePath"
    and "constructs_from_u16 lib relativePath"
    and "logger \<longrightarrow> has_u8string lib relativePath"
  shows "fst (FindXboxGamingRootPath lib char_signed logger fs root) =
           Returned (Some (Join root (WidePath relativePath)))"
proof -
  let ?bytes = "spec_encode_marker header relativePath terminator"
  have len: "length (concat (map utf16le_bytes relativePath)) = 2 * length relativePath"
    by (induction relativePath) (simp_all add: utf16le_bytes_def)
  have ev: "even (length ?bytes)" and ge: "\<not> length ?bytes < 10"
    using assms(2) by (simp_all add: spec_encode_marker_def len utf16le_bytes_def)
  have h4: "length (paired_units char_signed header) = 4"
    using assms(2) by (simp add: length_paired_units)
  have "paired_units char_signed ?bytes =
      paired_units char_signed header @ relativePath
        @ paired_units char_signed (utf16le_bytes terminator)"
    using assms(2,3)
    by (simp add: spec_encode_marker_def paired_units_append len paired_units_encode)
  then have "drop 4 (butlast (paired_units char_signed ?bytes)) = relativePath"
    using h4 by (simp add: utf16le_bytes_def butlast_append)
  with ev ge assms(1,4,5) show ?thesis
    by (simp add: FindXboxGamingRootPath_def Let_def parse_even)
qed

text \<open>
  C1. The round trip fails where plain \<open>char\<close> is signed, for a path with a unit whose
  low byte is \<open>80\<close> or more. The marker of the one-letter path U+00E9 (bytes
  \<open>E9 00\<close> after the header, then the terminator) is decoded as the unit \<open>FFE9\<close>:
  the low byte is sign-extended to \<open>FFE9\<close> before it is combined with the high byte.
  Both libraries convert U+00E9 and U+FFE9, so the result is the same with either.
\<close>

theorem round_trip_fails_on_signed_char:
  "fst (FindXboxGamingRootPath wide_paths True True
          (only_marker drive_D (Contents (spec_encode_marker gaming_root_header [0x00E9] 0)))
          drive_D) = Returned (Some (Join drive_D (WidePath [0xFFE9])))
   \<and> fst (FindXboxGamingRootPath wide_paths True True
          (only_marker drive_D (Contents (spec_encode_marker gaming_root_header [0x00E9] 0)))
          drive_D) \<noteq> Returned (Some (Join drive_D (WidePath [0x00E9])))
   \<and> fst (FindXboxGamingRootPath narrow_paths True True
          (only_marker drive_D (Contents (spec_encode_marker gaming_root_header [0x00E9] 0)))
          drive_D) = Returned (Some (Join drive_D (WidePath [0xFFE9])))"
  by (simp add: FindXboxGamingRootPath_def only_marker_def parse_gaming_root_def
      spec_encode_marker_def gaming_root_header_def utf16le_bytes_def
      char_to_char16_def char16_value_def CHAR_BIT_def CHAR16_PATH_OFFSET_def emit_def Let_def
      wide_paths_def narrow_paths_def is_high_surrogate_def is_low_surrogate_def)

section \<open>Properties of the Registry functions\<close>

text \<open>
  Whatever the host answers, every pass through the loop of \<open>GetRegistrySubKeys\<close>
  that does not throw appends an entry, the pass that sees \<open>ERROR_NO_MORE_ITEMS\<close>
  included: a list that the loop returns is longer than the one it started from.
\<close>

lemma enum_loop_appends:
  assumes "enum_loop os hKey failure names idx buf len = Some y"
  shows "\<forall>r. y = Returned r \<longrightarrow> (\<exists>more. r = names @ more \<and> more \<noteq> [])"
  using assms
proof (induction os hKey failure names idx buf len y
    rule: enum_loop.raw_induct [rotated 1, consumes 1])
  case (1 loop os hKey failure names idx buf len y)
  obtain status buf1 len1
    where call: "RegEnumKeyEx os hKey idx buf len = (status, buf1, len1)"
    by (cases "RegEnumKeyEx os hKey idx buf len") auto
  show ?case
  proof (cases "status = ERROR_SUCCESS")
    case True
    with 1(2) call
    have "loop os hKey failure (names @ [FromWinWide os (c_str buf1)]) (idx + 1) buf1 len1
            = Some y"
      by (simp add: Let_def)
    from 1(1) [OF this] show ?thesis by auto
  next
    case False
    with 1(2) call show ?thesis
      by (auto simp: Let_def split: if_splits)
  qed
qed

lemma subkeys_never_empty_after_open:
  assumes "GetRegistryRootKey rootKey = Returned root"
    and "fst (RegOpenKeyEx os root (c_str (ToWinWide os subKey))) = ERROR_SUCCESS"
    and "GetRegistrySubKeys os logger rootKey subKey = Some (Returned names, entries)"
  shows "names \<noteq> []"
proof -
  obtain hKey
    where "RegOpenKeyEx os root (c_str (ToWinWide os subKey)) = (ERROR_SUCCESS, hKey)"
    using assms(2) by (cases "RegOpenKeyEx os root (c_str (ToWinWide os subKey))") auto
  with assms(1,3)
  have "enum_loop os hKey (subkeys_error os rootKey subKey) [] 0 (replicate MAX_PATH 0)
          (of_nat MAX_PATH) = Some (Returned names)"
    by (auto simp: GetRegistrySubKeys_def Let_def)
  from enum_loop_appends [OF this] show ?thesis by simp
qed

text \<open>
  A status other than \<open>ERROR_SUCCESS\<close> and \<open>ERROR_NO_MORE_ITEMS\<close> is thrown as a
  \<open>std::system_error\<close> whose message ends with the root key, a backslash and the
  subkey; here for the first call of \<open>RegEnumKeyEx\<close>.
\<close>

lemma other_status_is_thrown:
  assumes "GetRegistryRootKey rootKey = Returned root"
    and "RegOpenKeyEx os root (c_str (ToWinWide os subKey)) = (ERROR_SUCCESS, hKey)"
    and "RegEnumKeyEx os hKey 0 (replicate MAX_PATH 0) (of_nat MAX_PATH) = (status, buf, len)"
    and "status \<noteq> ERROR_SUCCESS"
    and "status \<noteq> ERROR_NO_MORE_ITEMS"
  shows "map_option fst (GetRegistrySubKeys os logger rootKey subKey) =
           Some (Threw (subkeys_error os rootKey subKey))"
  using assms by (simp add: GetRegistrySubKeys_def Let_def enum_loop.simps)

text \<open>
  \<open>len\<close> is set to \<open>MAX_PATH\<close> once, before the loop, and \<open>RegEnumKeyEx\<close> leaves
  the length of the name it wrote there. On a host that behaves as documented the second
  subkey is then refused with \<open>ERROR_MORE_DATA\<close> unless its name is shorter than the
  first one's: a key with the subkeys \<open>ab\<close> and \<open>cd\<close> makes the function throw.
\<close>

lemma second_name_of_same_length_is_thrown:
  "map_option fst (GetRegistrySubKeys
      (registry_host (\<lambda>view. ERROR_SUCCESS) ERROR_SUCCESS
         [ascii_to_wide ''ab'', ascii_to_wide ''cd''])
      True ''HKEY_LOCAL_MACHINE'' ''SOFTWARE'')
   = Some (Threw (subkeys_error
      (registry_host (\<lambda>view. ERROR_SUCCESS) ERROR_SUCCESS
         [ascii_to_wide ''ab'', ascii_to_wide ''cd''])
      ''HKEY_LOCAL_MACHINE'' ''SOFTWARE''))"
  by code_simp

text \<open>
  C2. \<open>GetRegistrySubKeys\<close> does not return exactly the names of the subkeys: the pass
  of the loop that receives \<open>ERROR_NO_MORE_ITEMS\<close> still appends the contents of the
  buffer. A key that exists and has no subkey yields one entry, the empty string, and a
  key whose only subkey is \<open>A\<close> yields \<open>A\<close> twice.
\<close>

theorem subkeys_get_one_entry_too_many:
  "map_option fst (GetRegistrySubKeys
      (registry_host (\<lambda>view. ERROR_SUCCESS) ERROR_SUCCESS [])
      True ''HKEY_LOCAL_MACHINE'' ''SOFTWARE'') = Some (Returned [[]])
   \<and> map_option fst (GetRegistrySubKeys
        (registry_host (\<lambda>view. ERROR_SUCCESS) ERROR_SUCCESS [ascii_to_wide ''A''])
        True ''HKEY_LOCAL_MACHINE'' ''SOFTWARE'') = Some (Returned [''A'', ''A''])"
  by code_simp

text \<open>
  C4, as amended. With a logger registered and a root key name that
  \<open>GetRegistryRootKey\<close> accepts: when the lookup under the 32-bit view fails, with
  whatever status, and the lookup under the 64-bit view fails too, \<open>RegKeyStringValue\<close>
  has asked exactly these two views, in this order, and returns the empty string; nothing is
  thrown. The status is not looked at beyond \<open>ERROR_SUCCESS\<close>, so a missing value and
  a refused access read the same.
\<close>

theorem failed_lookups_read_as_empty_string:
  assumes "GetRegistryRootKey rootKey = Returned hKey"
    and "RegGetValue os hKey (c_str (ToWinWide os subkey)) (c_str (ToWinWide os val))
           WOW6432KEY (replicate MAX_PATH 0) (of_nat MAX_PATH) = (ret1, wstr1, len1)"
    and "ret1 \<noteq> ERROR_SUCCESS"
    and "RegGetValue os hKey (c_str (ToWinWide os subkey)) (c_str (ToWinWide os val))
           WOW6464KEY wstr1 len1 = (ret2, wstr2, len2)"
    and "ret2 \<noteq> ERROR_SUCCESS"
  shows "fst (RegKeyStringValue os True rootKey subkey val) = Returned []
       \<and> snd (snd (RegKeyStringValue os True rootKey subkey val)) = [WOW6432KEY, WOW6464KEY]"
  using assms by (simp add: RegKeyStringValue_def string_value_result_def Let_def)

theorem failed_lookups_read_as_empty_string_witness:
  "fst (RegKeyStringValue (registry_host (\<lambda>view. ERROR_FILE_NOT_FOUND) ERROR_SUCCESS [])
          True ''HKEY_LOCAL_MACHINE'' ''SOFTWARE'' ''Path'') = Returned []
   \<and> snd (snd (RegKeyStringValue
          (registry_host (\<lambda>view. ERROR_FILE_NOT_FOUND) ERROR_SUCCESS [])
          True ''HKEY_LOCAL_MACHINE'' ''SOFTWARE'' ''Path'')) = [WOW6432KEY, WOW6464KEY]"
  using failed_lookups_read_as_empty_string
    [of "''HKEY_LOCAL_MACHINE''" HKEY_LOCAL_MACHINE
        "registry_host (\<lambda>view. ERROR_FILE_NOT_FOUND) ERROR_SUCCESS []"
        "''SOFTWARE''" "''Path''"
        ERROR_FILE_NOT_FOUND "replicate MAX_PATH 0" "of_nat MAX_PATH"
        ERROR_FILE_NOT_FOUND "replicate MAX_PATH 0" "of_nat MAX_PATH"]
  by (simp add: GetRegistryRootKey_def registry_host_def ERROR_FILE_NOT_FOUND_def
      ERROR_SUCCESS_def)

text \<open>
  C4 as stated fails: a Registry that answers \<open>ERROR_ACCESS_DENIED\<close> in both views is
  not reported as an error; the result is the empty string of an absent value.
\<close>

theorem access_denied_reads_as_absent:
  "fst (RegKeyStringValue (registry_host (\<lambda>view. ERROR_ACCESS_DENIED) ERROR_SUCCESS [])
          True ''HKEY_LOCAL_MACHINE'' ''SOFTWARE'' ''Path'') = Returned []"
  by code_simp

text \<open>
  C3. Two log calls are made without the check for a logger: \<open>logger->error\<close> for a
  marker with an odd number of bytes, and \<open>logger->info\<close> between the two Registry
  lookups. With no logger registered each is a call through a null pointer, where the same
  input with a logger throws the \<open>runtime_error\<close>, respectively returns the empty
  string.
\<close>

theorem log_calls_without_logger_check:
  "fst (FindXboxGamingRootPath wide_paths True False
          (only_marker drive_D (Contents [0x52])) drive_D)
     = NullDeref
   \<and> fst (FindXboxGamingRootPath wide_paths True True
          (only_marker drive_D (Contents [0x52])) drive_D)
     = Threw (non_even_error (Join drive_D (NarrowPath ''.GamingRoot'')))
   \<and> fst (RegKeyStringValue (registry_host (\<lambda>view. ERROR_FILE_NOT_FOUND) ERROR_SUCCESS [])
          False ''HKEY_LOCAL_MACHINE'' ''SOFTWARE'' ''Path'') = NullDeref
   \<and> fst (RegKeyStringValue (registry_host (\<lambda>view. ERROR_FILE_NOT_FOUND) ERROR_SUCCESS [])
          True ''HKEY_LOCAL_MACHINE'' ''SOFTWARE'' ''Path'') = Returned []"
  by (simp add: FindXboxGamingRootPath_def only_marker_def parse_gaming_root_def emit_def
      RegKeyStringValue_def GetRegistryRootKey_def registry_host_def string_value_result_def
      ERROR_FILE_NOT_FOUND_def ERROR_SUCCESS_def Let_def)

section \<open>Properties of \<open>getLocalAppDataPath\<close> and \<open>CompareFilenames\<close>\<close>

text \<open>
  C5, as amended. Where \<open>_WIN32\<close> is not defined, \<open>getLocalAppDataPath\<close> returns
  \<open>XDG_CONFIG_HOME\<close> when that variable is set, whatever its value; otherwise
  \<open>HOME\<close> joined with \<open>.config\<close> when \<open>HOME\<close> is set, a path that is never
  empty; otherwise whatever \<open>getExecutableDirectory\<close> does. It throws exactly when both
  variables are unset and \<open>readlink\<close> on \<open>/proc/self/exe\<close> returns a negative
  count. On Windows there is no chain: the function throws exactly when
  \<open>SHGetKnownFolderPath\<close> does not return \<open>S_OK\<close>.
\<close>

theorem local_app_data_fallback_chain:
  "(getenv os ''XDG_CONFIG_HOME'' = Some xdg \<longrightarrow>
      getLocalAppDataPath (Posix os) logger = (Returned (NarrowPath xdg), []))
   \<and> (getenv os ''XDG_CONFIG_HOME'' = None \<and> getenv os ''HOME'' = Some home \<longrightarrow>
        getLocalAppDataPath (Posix os) logger =
          (Returned (Join (NarrowPath home) (NarrowPath ''.config'')), [])
        \<and> known_nonempty (Join (NarrowPath home) (NarrowPath ''.config'')))
   \<and> (getenv os ''XDG_CONFIG_HOME'' = None \<and> getenv os ''HOME'' = None \<longrightarrow>
        getLocalAppDataPath (Posix os) logger = getExecutableDirectory (Posix os) logger)
   \<and> ((\<exists>e. fst (getLocalAppDataPath (Posix os) logger) = Threw e) \<longleftrightarrow>
        getenv os ''XDG_CONFIG_HOME'' = None \<and> getenv os ''HOME'' = None
        \<and> fst (readlink os ''/proc/self/exe'' PATH_MAX) < 0)
   \<and> ((\<exists>e. fst (getLocalAppDataPath (Windows w) logger) = Threw e) \<longleftrightarrow>
        fst (SHGetKnownFolderPath w) \<noteq> S_OK)"
proof -
  have posix_part: "(\<exists>e. fst (getLocalAppDataPath (Posix os) logger) = Threw e) \<longleftrightarrow>
        getenv os ''XDG_CONFIG_HOME'' = None \<and> getenv os ''HOME'' = None
        \<and> fst (readlink os ''/proc/self/exe'' PATH_MAX) < 0"
    by (cases "readlink os ''/proc/self/exe'' PATH_MAX")
      (auto simp: getLocalAppDataPath_def getExecutableDirectory_def split: option.splits)
  have windows_part: "(\<exists>e. fst (getLocalAppDataPath (Windows w) logger) = Threw e) \<longleftrightarrow>
        fst (SHGetKnownFolderPath w) \<noteq> S_OK"
    by (cases "SHGetKnownFolderPath w") (auto simp: getLocalAppDataPath_def)
  have chain: "(getenv os ''XDG_CONFIG_HOME'' = Some xdg \<longrightarrow>
      getLocalAppDataPath (Posix os) logger = (Returned (NarrowPath xdg), []))
   \<and> (getenv os ''XDG_CONFIG_HOME'' = None \<and> getenv os ''HOME'' = Some home \<longrightarrow>
        getLocalAppDataPath (Posix os) logger =
          (Returned (Join (NarrowPath home) (NarrowPath ''.config'')), [])
        \<and> known_nonempty (Join (NarrowPath home) (NarrowPath ''.config'')))
   \<and> (getenv os ''XDG_CONFIG_HOME'' = None \<and> getenv os ''HOME'' = None \<longrightarrow>
        getLocalAppDataPath (Posix os) logger = getExecutableDirectory (Posix os) logger)"
    by (simp add: getLocalAppDataPath_def)
  from chain posix_part windows_part show ?thesis by blast
qed

theorem local_app_data_fallback_chain_witness:
  "getLocalAppDataPath
     (Posix (posix_host (\<lambda>name. if name = ''HOME'' then Some ''/home/user'' else None)
        (- 1, []))) False
     = (Returned (Join (NarrowPath ''/home/user'') (NarrowPath ''.config'')), [])"
  using local_app_data_fallback_chain
    [of "posix_host (\<lambda>name. if name = ''HOME'' then Some ''/home/user'' else None) (- 1, [])"
        "[]" False "''/home/user''"]
  by (simp add: posix_host_def)

text \<open>
  C5 as stated fails: with both variables unset and no \<open>/proc/self/exe\<close>
  to read, the function throws the \<open>system_error\<close> of \<open>getExecutableDirectory\<close>.
\<close>

theorem local_app_data_can_fail:
  "fst (getLocalAppDataPath (Posix (posix_host (\<lambda>name. None) (- 1, []))) True)
     = Threw (no_executable_path (- 1))"
  by (simp add: getLocalAppDataPath_def getExecutableDirectory_def posix_host_def)

text \<open>And \<open>XDG_CONFIG_HOME\<close> set to the empty string gives the empty path.\<close>

lemma empty_override_gives_empty_path:
  "getLocalAppDataPath
     (Posix (posix_host (\<lambda>name. if name = ''XDG_CONFIG_HOME'' then Some [] else None)
        (- 1, []))) True
     = (Returned (NarrowPath []), [])
   \<and> known_empty (NarrowPath [])"
  by (simp add: getLocalAppDataPath_def posix_host_def)

text \<open>
  C9, as amended. Where \<open>_WIN32\<close> is not defined, \<open>CompareFilenames\<close> never throws:
  it returns what ICU's \<open>caseCompare\<close> answers for the two strings as \<open>fromUTF8\<close>
  decodes them, well-formed or not. On Windows it returns \<open>-1\<close> exactly when
  \<open>CompareStringOrdinal\<close> answers \<open>CSTR_LESS_THAN\<close>, \<open>0\<close> exactly for
  \<open>CSTR_EQUAL\<close> and \<open>1\<close> exactly for \<open>CSTR_GREATER_THAN\<close>, and it throws
  \<open>std::invalid_argument\<close> exactly for any other answer; it does nothing else. The
  function is a function of its arguments and the host's answers: it has no effect.
\<close>

theorem compare_filenames_results:
  "CompareFilenames (Posix p) lhs rhs =
     Returned (caseCompare p (fromUTF8 p lhs) (fromUTF8 p rhs))
   \<and> CompareFilenames (Windows w) lhs rhs
       \<in> {Returned (- 1), Returned 0, Returned 1, Threw invalid_filename}
   \<and> (CompareFilenames (Windows w) lhs rhs = Returned (- 1)) =
       (CompareStringOrdinal w (c_str (ToWinWide w lhs)) (c_str (ToWinWide w rhs))
          = CSTR_LESS_THAN)
   \<and> (CompareFilenames (Windows w) lhs rhs = Returned 0) =
       (CompareStringOrdinal w (c_str (ToWinWide w lhs)) (c_str (ToWinWide w rhs))
          = CSTR_EQUAL)
   \<and> (CompareFilenames (Windows w) lhs rhs = Returned 1) =
       (CompareStringOrdinal w (c_str (ToWinWide w lhs)) (c_str (ToWinWide w rhs))
          = CSTR_GREATER_THAN)
   \<and> (CompareFilenames (Windows w) lhs rhs = Threw invalid_filename) =
       (CompareStringOrdinal w (c_str (ToWinWide w lhs)) (c_str (ToWinWide w rhs))
          \<notin> {CSTR_LESS_THAN, CSTR_EQUAL, CSTR_GREATER_THAN})"
  by (auto simp: CompareFilenames_def Let_def CSTR_LESS_THAN_def CSTR_EQUAL_def
      CSTR_GREATER_THAN_def)

text \<open>
  C9 as stated fails: the one-byte string \<open>FF\<close> is not UTF-8, and comparing it with
  \<open>a\<close> returns a result (U+FFFD sorts after \<open>a\<close>) instead of failing.
\<close>

theorem ill_formed_name_is_compared:
  "CompareFilenames (Posix (posix_host (\<lambda>name. None) (- 1, []))) [CHR 0xFF] ''a''
     = Returned 1"
  by (simp add: CompareFilenames_def posix_host_def ascii_to_wide_def fold_ascii_def)

end
